theory Spec2Isabelle
  imports Main "HOL-Library.Word"
begin

unbundle bit_operations_syntax

section \<open>The x64 backend of the emulator: stepping, breakpoints, exception dispatch\<close>

text \<open>
  A shallow embedding of \<^verbatim>\<open>x64_backend.cc\<close>: the register-read helper
  \<^verbatim>\<open>ReadCapstoneReg\<close>, the condition-code test \<^verbatim>\<open>TestCapstoneEflags\<close>, the
  instruction stepper \<^verbatim>\<open>X64Backend::CalculateNextHostInstruction\<close>, the breakpoint
  patcher (\<^verbatim>\<open>InstallBreakpoint\<close>, \<^verbatim>\<open>UninstallBreakpoint\<close>) and the exception
  dispatcher \<^verbatim>\<open>ExceptionCallback\<close>.
\<close>

subsection \<open>Assertions\<close>

text \<open>
  Modelled from the spec: the macros \<^verbatim>\<open>assert_true\<close>, \<^verbatim>\<open>assert_zero\<close>,
  \<^verbatim>\<open>assert_always\<close> and \<^verbatim>\<open>assert_unhandled_case\<close> are defined in a header that
  is not among the sources at hand. The spec has a failed assertion end the process
  ("assertion, process terminates or debug-breaks") and has the code "assert and fall
  back" where a statement follows the assertion. They are C assertions: where
  assertions are compiled in, a failed one ends the process; where they are compiled
  out, execution goes on with the next statement. The build mode is the parameter
  \<open>chk\<close> of every function below (\<open>True\<close>: assertions are compiled in). A fatal
  assertion is the \<open>Inl\<close> branch of the result.
\<close>

datatype fatal =
    assert_true_failed
  | assert_zero_failed
  | assert_always_failed
  | assert_unhandled_case_failed

definition assert_true :: "bool \<Rightarrow> bool \<Rightarrow> fatal + 'a \<Rightarrow> fatal + 'a" where
  "assert_true chk expr rest = (if chk \<and> \<not> expr then Inl assert_true_failed else rest)"

definition assert_zero :: "bool \<Rightarrow> 'b::zero \<Rightarrow> fatal + 'a \<Rightarrow> fatal + 'a" where
  "assert_zero chk expr rest = (if chk \<and> expr \<noteq> 0 then Inl assert_zero_failed else rest)"

definition assert_always :: "bool \<Rightarrow> fatal + 'a \<Rightarrow> fatal + 'a" where
  "assert_always chk rest = (if chk then Inl assert_always_failed else rest)"

definition assert_unhandled_case :: "bool \<Rightarrow> fatal + 'a \<Rightarrow> fatal + 'a" where
  "assert_unhandled_case chk rest = (if chk then Inl assert_unhandled_case_failed else rest)"

subsection \<open>Host memory\<close>

text \<open>
  Host memory is byte addressed by 64-bit addresses. The host is x86-64, so a native
  64-bit load (\<^verbatim>\<open>stack_ptr[0]\<close>) is little endian.
\<close>

type_synonym memory = "64 word \<Rightarrow> 8 word"

definition load_u64 :: "memory \<Rightarrow> 64 word \<Rightarrow> 64 word" where
  "load_u64 mem p =
     ucast (mem p) OR push_bit 8 (ucast (mem (p + 1))) OR
     push_bit 16 (ucast (mem (p + 2))) OR push_bit 24 (ucast (mem (p + 3))) OR
     push_bit 32 (ucast (mem (p + 4))) OR push_bit 40 (ucast (mem (p + 5))) OR
     push_bit 48 (ucast (mem (p + 6))) OR push_bit 56 (ucast (mem (p + 7)))"

text \<open>
  Modelled from the spec: \<^verbatim>\<open>xe::load_and_swap\<close> is defined in a header that is not
  among the sources at hand; the spec has it read "the two bytes" at an address, to be
  compared with the two-byte trap signature. It is a native 16-bit load followed by a
  byte swap, so on the little-endian host the byte at the address is the high byte of
  the value: the trap signature \<^verbatim>\<open>0x0F0B\<close> is the byte \<^verbatim>\<open>0F\<close> followed by the
  byte \<^verbatim>\<open>0B\<close>.
\<close>

definition load_and_swap_u16 :: "memory \<Rightarrow> 64 word \<Rightarrow> 16 word" where
  "load_and_swap_u16 mem p = push_bit 8 (ucast (mem p)) OR ucast (mem (p + 1))"

text \<open>
  Modelled from the spec: \<^verbatim>\<open>xe::store_and_swap\<close> is defined in the same header; the
  spec has it write the two bytes at an address (the trap signature, or the original
  bytes). It is a byte swap followed by a native 16-bit store: the high byte of the
  value goes to the address, the low byte to the next one.
\<close>

definition store_and_swap_u16 :: "memory \<Rightarrow> 64 word \<Rightarrow> 16 word \<Rightarrow> memory" where
  "store_and_swap_u16 mem p v = mem(p := ucast (drop_bit 8 v), p + 1 := ucast v)"

subsection \<open>Registers and the register-read helper\<close>

text \<open>
  The disassembler's register enumeration: the sixteen members the backend names, and
  every other member by its number.
\<close>

datatype x86_reg =
    X86_REG_RAX | X86_REG_RCX | X86_REG_RDX | X86_REG_RBX
  | X86_REG_RSP | X86_REG_RBP | X86_REG_RSI | X86_REG_RDI
  | X86_REG_R8 | X86_REG_R9 | X86_REG_R10 | X86_REG_R11
  | X86_REG_R12 | X86_REG_R13 | X86_REG_R14 | X86_REG_R15
  | X86_REG_other nat

text \<open>
  The register snapshot of a thread (declared in a header that is not among the sources
  at hand): the fields the backend reads.
\<close>

record X64Context =
  rax :: "64 word"
  rcx :: "64 word"
  rdx :: "64 word"
  rbx :: "64 word"
  rsp :: "64 word"
  rbp :: "64 word"
  rsi :: "64 word"
  rdi :: "64 word"
  r8 :: "64 word"
  r9 :: "64 word"
  r10 :: "64 word"
  r11 :: "64 word"
  r12 :: "64 word"
  r13 :: "64 word"
  r14 :: "64 word"
  r15 :: "64 word"
  eflags :: "32 word"

record ThreadDebugInfo =
  host_context :: X64Context

fun ReadCapstoneReg :: "bool \<Rightarrow> X64Context \<Rightarrow> x86_reg \<Rightarrow> fatal + 64 word" where
  "ReadCapstoneReg chk context X86_REG_RAX = Inr (rax context)"
| "ReadCapstoneReg chk context X86_REG_RCX = Inr (rcx context)"
| "ReadCapstoneReg chk context X86_REG_RDX = Inr (rdx context)"
| "ReadCapstoneReg chk context X86_REG_RBX = Inr (rbx context)"
| "ReadCapstoneReg chk context X86_REG_RSP = Inr (rsp context)"
| "ReadCapstoneReg chk context X86_REG_RBP = Inr (rbp context)"
| "ReadCapstoneReg chk context X86_REG_RSI = Inr (rsi context)"
| "ReadCapstoneReg chk context X86_REG_RDI = Inr (rdi context)"
| "ReadCapstoneReg chk context X86_REG_R8 = Inr (r8 context)"
| "ReadCapstoneReg chk context X86_REG_R9 = Inr (r9 context)"
| "ReadCapstoneReg chk context X86_REG_R10 = Inr (r10 context)"
| "ReadCapstoneReg chk context X86_REG_R11 = Inr (r11 context)"
| "ReadCapstoneReg chk context X86_REG_R12 = Inr (r12 context)"
| "ReadCapstoneReg chk context X86_REG_R13 = Inr (r13 context)"
| "ReadCapstoneReg chk context X86_REG_R14 = Inr (r14 context)"
| "ReadCapstoneReg chk context X86_REG_R15 = Inr (r15 context)"
| "ReadCapstoneReg chk context (X86_REG_other n) = assert_unhandled_case chk (Inr 0)"

subsection \<open>The condition-code test\<close>

text \<open>
  The disassembler's instruction enumeration: the members the backend names, and every
  other member by its number.
\<close>

datatype x86_insn =
    X86_INS_CALL | X86_INS_RET | X86_INS_JMP
  | X86_INS_JCXZ | X86_INS_JECXZ | X86_INS_JRCXZ
  | X86_INS_JAE | X86_INS_JA | X86_INS_JBE | X86_INS_JB
  | X86_INS_JE | X86_INS_JGE | X86_INS_JG | X86_INS_JLE
  | X86_INS_JL | X86_INS_JNE | X86_INS_JNO | X86_INS_JNP
  | X86_INS_JNS | X86_INS_JO | X86_INS_JP | X86_INS_JS
  | X86_INS_other nat

definition X86_EFLAGS_CF :: "32 word" where "X86_EFLAGS_CF = 0x00000001"
definition X86_EFLAGS_PF :: "32 word" where "X86_EFLAGS_PF = 0x00000004"
definition X86_EFLAGS_ZF :: "32 word" where "X86_EFLAGS_ZF = 0x00000040"
definition X86_EFLAGS_SF :: "32 word" where "X86_EFLAGS_SF = 0x00000080"
definition X86_EFLAGS_OF :: "32 word" where "X86_EFLAGS_OF = 0x00000800"

fun TestCapstoneEflags :: "bool \<Rightarrow> 32 word \<Rightarrow> x86_insn \<Rightarrow> fatal + bool" where
  "TestCapstoneEflags chk efl X86_INS_JAE =
     Inr ((efl AND X86_EFLAGS_CF) = 0 \<and> (efl AND X86_EFLAGS_ZF) = 0)"
| "TestCapstoneEflags chk efl X86_INS_JA =
     Inr ((efl AND X86_EFLAGS_CF) = 0)"
| "TestCapstoneEflags chk efl X86_INS_JBE =
     Inr ((efl AND X86_EFLAGS_CF) = X86_EFLAGS_CF \<or> (efl AND X86_EFLAGS_ZF) = X86_EFLAGS_ZF)"
| "TestCapstoneEflags chk efl X86_INS_JB =
     Inr ((efl AND X86_EFLAGS_CF) = X86_EFLAGS_CF)"
| "TestCapstoneEflags chk efl X86_INS_JE =
     Inr ((efl AND X86_EFLAGS_ZF) = X86_EFLAGS_ZF)"
| "TestCapstoneEflags chk efl X86_INS_JGE =
     Inr ((efl AND X86_EFLAGS_SF) = (efl AND X86_EFLAGS_OF))"
| "TestCapstoneEflags chk efl X86_INS_JG =
     Inr ((efl AND X86_EFLAGS_ZF) = 0 \<and>
          (efl AND X86_EFLAGS_SF) = (efl AND X86_EFLAGS_OF))"
| "TestCapstoneEflags chk efl X86_INS_JLE =
     Inr ((efl AND X86_EFLAGS_ZF) = X86_EFLAGS_ZF \<or>
          (efl AND X86_EFLAGS_SF) \<noteq> X86_EFLAGS_OF)"
| "TestCapstoneEflags chk efl X86_INS_JL =
     Inr ((efl AND X86_EFLAGS_SF) \<noteq> (efl AND X86_EFLAGS_OF))"
| "TestCapstoneEflags chk efl X86_INS_JNE =
     Inr ((efl AND X86_EFLAGS_ZF) = 0)"
| "TestCapstoneEflags chk efl X86_INS_JNO =
     Inr ((efl AND X86_EFLAGS_OF) = 0)"
| "TestCapstoneEflags chk efl X86_INS_JNP =
     Inr ((efl AND X86_EFLAGS_PF) = 0)"
| "TestCapstoneEflags chk efl X86_INS_JNS =
     Inr ((efl AND X86_EFLAGS_SF) = 0)"
| "TestCapstoneEflags chk efl X86_INS_JO =
     Inr ((efl AND X86_EFLAGS_OF) = X86_EFLAGS_OF)"
| "TestCapstoneEflags chk efl X86_INS_JP =
     Inr ((efl AND X86_EFLAGS_PF) = X86_EFLAGS_PF)"
| "TestCapstoneEflags chk efl X86_INS_JS =
     Inr ((efl AND X86_EFLAGS_SF) = X86_EFLAGS_SF)"
| "TestCapstoneEflags chk efl _ = assert_unhandled_case chk (Inr False)"

subsection \<open>The instruction stepper\<close>

text \<open>
  What the disassembler reports of one instruction: its id, its length in bytes, and the
  operand count and operand array of its x86 detail. An operand is a C union under a type
  tag; the record keeps the register and the immediate as two fields, which covers every
  state of the union.
\<close>

datatype x86_op_type = X86_OP_INVALID | X86_OP_REG | X86_OP_IMM | X86_OP_MEM | X86_OP_FP

record cs_x86_op =
  op_type :: x86_op_type
  reg :: x86_reg
  imm :: "64 word"

record cs_insn =
  insn_id :: x86_insn
  insn_size :: "16 word"
  op_count :: "8 word"
  operands :: "nat \<Rightarrow> cs_x86_op"

text \<open>The window of machine code handed to the disassembler: \<open>n\<close> bytes from \<open>pc\<close>.\<close>

definition machine_code :: "memory \<Rightarrow> 64 word \<Rightarrow> nat \<Rightarrow> 8 word list" where
  "machine_code mem pc n = map (\<lambda>i. mem (pc + of_nat i)) [0..<n]"

text \<open>
  The disassembler is a third-party library: \<open>cs_disasm_iter\<close> is a parameter, a
  function from the window of machine code and its address to the decoded instruction.
  The stepper ignores whether decoding succeeded, and so does the model.
\<close>

definition CalculateNextHostInstruction ::
  "bool \<Rightarrow> (8 word list \<Rightarrow> 64 word \<Rightarrow> cs_insn) \<Rightarrow> memory \<Rightarrow> ThreadDebugInfo \<Rightarrow> 64 word
     \<Rightarrow> fatal + 64 word" where
  "CalculateNextHostInstruction chk cs_disasm_iter mem thread_info current_pc =
    (let insn = cs_disasm_iter (machine_code mem current_pc 64) current_pc;
         jcc =
           assert_true chk (op_count insn = 1)
             (assert_true chk (op_type (operands insn 0) = X86_OP_IMM)
               (let target_pc = imm (operands insn 0) in
                case TestCapstoneEflags chk (eflags (host_context thread_info)) (insn_id insn) of
                  Inl e \<Rightarrow> Inl e
                | Inr test_passed \<Rightarrow>
                    if test_passed then Inr target_pc
                    else Inr (current_pc + ucast (insn_size insn))))
     in case insn_id insn of
          X86_INS_CALL \<Rightarrow>
            assert_true chk (op_count insn = 1)
              (assert_true chk (op_type (operands insn 0) = X86_OP_REG)
                (ReadCapstoneReg chk (host_context thread_info) (reg (operands insn 0))))
        | X86_INS_RET \<Rightarrow>
            assert_zero chk (op_count insn)
              (Inr (load_u64 mem (rsp (host_context thread_info))))
        | X86_INS_JMP \<Rightarrow>
            assert_true chk (op_count insn = 1)
              (if op_type (operands insn 0) = X86_OP_IMM then Inr (imm (operands insn 0))
               else if op_type (operands insn 0) = X86_OP_REG then
                 ReadCapstoneReg chk (host_context thread_info) (reg (operands insn 0))
               else assert_always chk (Inr (current_pc + ucast (insn_size insn))))
        | X86_INS_JCXZ \<Rightarrow> assert_always chk (Inr (current_pc + ucast (insn_size insn)))
        | X86_INS_JECXZ \<Rightarrow> assert_always chk (Inr (current_pc + ucast (insn_size insn)))
        | X86_INS_JRCXZ \<Rightarrow> assert_always chk (Inr (current_pc + ucast (insn_size insn)))
        | X86_INS_JAE \<Rightarrow> jcc
        | X86_INS_JA \<Rightarrow> jcc
        | X86_INS_JBE \<Rightarrow> jcc
        | X86_INS_JB \<Rightarrow> jcc
        | X86_INS_JE \<Rightarrow> jcc
        | X86_INS_JGE \<Rightarrow> jcc
        | X86_INS_JG \<Rightarrow> jcc
        | X86_INS_JLE \<Rightarrow> jcc
        | X86_INS_JL \<Rightarrow> jcc
        | X86_INS_JNE \<Rightarrow> jcc
        | X86_INS_JNO \<Rightarrow> jcc
        | X86_INS_JNP \<Rightarrow> jcc
        | X86_INS_JNS \<Rightarrow> jcc
        | X86_INS_JO \<Rightarrow> jcc
        | X86_INS_JP \<Rightarrow> jcc
        | X86_INS_JS \<Rightarrow> jcc
        | X86_INS_other n \<Rightarrow> Inr (current_pc + ucast (insn_size insn)))"

text \<open>
  The flags as the processor defines them, one boolean per flag, and the predicates of
  the signed "less" and "less or equal" jumps in those terms.
\<close>

definition flag_ZF :: "32 word \<Rightarrow> bool" where "flag_ZF efl = bit efl 6"
definition flag_SF :: "32 word \<Rightarrow> bool" where "flag_SF efl = bit efl 7"
definition flag_OF :: "32 word \<Rightarrow> bool" where "flag_OF efl = bit efl 11"

definition spec_JLE :: "32 word \<Rightarrow> bool" where
  "spec_JLE efl = (flag_ZF efl \<or> flag_SF efl \<noteq> flag_OF efl)"

definition spec_JL :: "32 word \<Rightarrow> bool" where
  "spec_JL efl = (flag_SF efl \<noteq> flag_OF efl)"

subsection \<open>The breakpoint patcher\<close>

text \<open>
  The breakpoint (declared in \<^verbatim>\<open>xenia/cpu/breakpoint.h\<close>, not among the sources at
  hand): its address type, its guest or host address, and the backend's records, one
  pair of host address and original bytes per patched location.
\<close>

datatype AddressType = kGuest | kHost

record Breakpoint =
  address_type :: AddressType
  guest_address :: "32 word"
  host_address :: "64 word"
  backend_data :: "(64 word \<times> 64 word) list"

text \<open>
  Modelled from the spec: \<^verbatim>\<open>Breakpoint::ForEachHostAddress\<close> is declared in
  \<^verbatim>\<open>xenia/cpu/breakpoint.h\<close>, which is not among the sources at hand. A host-typed
  breakpoint resolves to its one host address; a guest-typed one to the host addresses
  the translated functions map its guest address to (\<open>guest_to_host\<close>, the translator's
  map, is a parameter).
\<close>

definition ForEachHostAddress :: "(32 word \<Rightarrow> 64 word list) \<Rightarrow> Breakpoint \<Rightarrow> 64 word list" where
  "ForEachHostAddress guest_to_host breakpoint =
     (case address_type breakpoint of
        kHost \<Rightarrow> [host_address breakpoint]
      | kGuest \<Rightarrow> guest_to_host (guest_address breakpoint))"

text \<open>A loop whose body can end the process: it stops at the first fatal assertion.\<close>

fun for_each :: "('a \<Rightarrow> 's \<Rightarrow> fatal + 's) \<Rightarrow> 'a list \<Rightarrow> 's \<Rightarrow> fatal + 's" where
  "for_each body [] s = Inr s"
| "for_each body (x # xs) s =
     (case body x s of Inl e \<Rightarrow> Inl e | Inr s' \<Rightarrow> for_each body xs s')"

text \<open>The body of the lambda of \<^verbatim>\<open>InstallBreakpoint\<close>, on the memory and the breakpoint.\<close>

definition install_at :: "bool \<Rightarrow> 64 word \<Rightarrow> memory \<times> Breakpoint \<Rightarrow> fatal + memory \<times> Breakpoint" where
  "install_at chk addr s =
     (let mem = fst s; breakpoint = snd s;
          original_bytes = load_and_swap_u16 mem addr
      in assert_true chk (original_bytes \<noteq> 0x0F0B)
           (Inr (store_and_swap_u16 mem addr 0x0F0B,
                 breakpoint\<lparr>backend_data := backend_data breakpoint @ [(addr, ucast original_bytes)]\<rparr>)))"

definition InstallBreakpoint ::
  "bool \<Rightarrow> (32 word \<Rightarrow> 64 word list) \<Rightarrow> memory \<times> Breakpoint \<Rightarrow> fatal + memory \<times> Breakpoint" where
  "InstallBreakpoint chk guest_to_host s =
     for_each (install_at chk) (ForEachHostAddress guest_to_host (snd s)) s"

text \<open>The body of the loop of \<^verbatim>\<open>UninstallBreakpoint\<close>, on the memory.\<close>

definition uninstall_pair :: "bool \<Rightarrow> 64 word \<times> 64 word \<Rightarrow> memory \<Rightarrow> fatal + memory" where
  "uninstall_pair chk pair mem =
     (let ptr = fst pair;
          instruction_bytes = load_and_swap_u16 mem ptr
      in assert_true chk (instruction_bytes = 0x0F0B)
           (Inr (store_and_swap_u16 mem ptr (ucast (snd pair)))))"

definition UninstallBreakpoint :: "bool \<Rightarrow> memory \<times> Breakpoint \<Rightarrow> fatal + memory \<times> Breakpoint" where
  "UninstallBreakpoint chk s =
     (case for_each (uninstall_pair chk) (backend_data (snd s)) (fst s) of
        Inl e \<Rightarrow> Inl e
      | Inr mem' \<Rightarrow> Inr (mem', (snd s)\<lparr>backend_data := []\<rparr>))"

subsection \<open>The exception dispatcher\<close>

text \<open>
  The exception record (\<^verbatim>\<open>xenia/base/exception_handler.h\<close>, not among the sources at
  hand): its code, the faulting program counter and the thread's registers.
\<close>

datatype ExceptionCode = kInvalidException | kAccessViolation | kIllegalInstruction

record Exception =
  code :: ExceptionCode
  pc :: "64 word"
  thread_context :: X64Context

text \<open>
  What the dispatcher can affect: the host memory, and the calls made to the processor's
  breakpoint-hit handler, in order, each with the exception record it was given.
\<close>

record host_state =
  host_memory :: memory
  breakpoint_hits :: "Exception list"

text \<open>
  \<^verbatim>\<open>Processor::OnThreadBreakpointHit\<close> belongs to the runtime: \<open>handler\<close> is a
  parameter, a function of the exception record and the memory that returns whether it
  handled the exception, and the memory it leaves. A call to it is recorded.
\<close>

definition OnThreadBreakpointHit ::
  "(Exception \<Rightarrow> memory \<Rightarrow> bool \<times> memory) \<Rightarrow> Exception \<Rightarrow> host_state \<Rightarrow> bool \<times> host_state" where
  "OnThreadBreakpointHit handler ex s =
     (let r = handler ex (host_memory s)
      in (fst r, \<lparr>host_memory = snd r, breakpoint_hits = breakpoint_hits s @ [ex]\<rparr>))"

definition ExceptionCallback ::
  "(Exception \<Rightarrow> memory \<Rightarrow> bool \<times> memory) \<Rightarrow> Exception \<Rightarrow> host_state \<Rightarrow> bool \<times> host_state" where
  "ExceptionCallback handler ex s =
     (if code ex \<noteq> kIllegalInstruction then (False, s)
      else let instruction_bytes = load_and_swap_u16 (host_memory s) (pc ex)
           in if instruction_bytes \<noteq> 0x0F0B then (False, s)
              else OnThreadBreakpointHit handler ex s)"

subsection \<open>Installing and then uninstalling\<close>

definition install_then_uninstall ::
  "bool \<Rightarrow> (32 word \<Rightarrow> 64 word list) \<Rightarrow> memory \<times> Breakpoint \<Rightarrow> fatal + memory \<times> Breakpoint" where
  "install_then_uninstall chk guest_to_host s =
     (case InstallBreakpoint chk guest_to_host s of
        Inl e \<Rightarrow> Inl e
      | Inr s' \<Rightarrow> UninstallBreakpoint chk s')"

subsection \<open>The ids and registers the backend names\<close>

definition control_transfer_ids :: "x86_insn list" where
  "control_transfer_ids =
     [X86_INS_CALL, X86_INS_RET, X86_INS_JMP, X86_INS_JCXZ, X86_INS_JECXZ, X86_INS_JRCXZ,
      X86_INS_JAE, X86_INS_JA, X86_INS_JBE, X86_INS_JB, X86_INS_JE, X86_INS_JGE,
      X86_INS_JG, X86_INS_JLE, X86_INS_JL, X86_INS_JNE, X86_INS_JNO, X86_INS_JNP,
      X86_INS_JNS, X86_INS_JO, X86_INS_JP, X86_INS_JS]"

definition gpr64_regs :: "x86_reg list" where
  "gpr64_regs =
     [X86_REG_RAX, X86_REG_RCX, X86_REG_RDX, X86_REG_RBX, X86_REG_RSP, X86_REG_RBP,
      X86_REG_RSI, X86_REG_RDI, X86_REG_R8, X86_REG_R9, X86_REG_R10, X86_REG_R11,
      X86_REG_R12, X86_REG_R13, X86_REG_R14, X86_REG_R15]"

subsection \<open>Concrete inputs\<close>

text \<open>
  A thread snapshot with the given stack pointer and flags (every other register 0),
  operands and decoded instructions as the disassembler reports them, a disassembler
  that reports a given instruction, and small memories and breakpoints.
\<close>

definition snapshot :: "64 word \<Rightarrow> 32 word \<Rightarrow> ThreadDebugInfo" where
  "snapshot sp fl =
     \<lparr>host_context =
        \<lparr>rax = 0, rcx = 0, rdx = 0, rbx = 0, rsp = sp, rbp = 0, rsi = 0, rdi = 0,
         r8 = 0, r9 = 0, r10 = 0, r11 = 0, r12 = 0, r13 = 0, r14 = 0, r15 = 0,
         eflags = fl\<rparr>\<rparr>"

definition no_operand :: cs_x86_op where
  "no_operand = \<lparr>op_type = X86_OP_INVALID, reg = X86_REG_other 0, imm = 0\<rparr>"

definition imm_operand :: "64 word \<Rightarrow> cs_x86_op" where
  "imm_operand t = \<lparr>op_type = X86_OP_IMM, reg = X86_REG_other 0, imm = t\<rparr>"

definition reg_operand :: "x86_reg \<Rightarrow> cs_x86_op" where
  "reg_operand r = \<lparr>op_type = X86_OP_REG, reg = r, imm = 0\<rparr>"

definition decoded :: "x86_insn \<Rightarrow> 16 word \<Rightarrow> cs_x86_op list \<Rightarrow> cs_insn" where
  "decoded i len ops =
     \<lparr>insn_id = i, insn_size = len, op_count = of_nat (length ops),
      operands = (\<lambda>k. if k < length ops then ops ! k else no_operand)\<rparr>"

definition reports :: "cs_insn \<Rightarrow> 8 word list \<Rightarrow> 64 word \<Rightarrow> cs_insn" where
  "reports insn window address = insn"

definition zero_memory :: memory where
  "zero_memory = (\<lambda>a. 0)"


definition trap_memory :: memory where
  "trap_memory = zero_memory(0x1000 := 0x0F, 0x1001 := 0x0B)"

definition code_memory :: memory where
  "code_memory = zero_memory(0x1000 := 0x48, 0x1001 := 0x89)"

definition host_breakpoint :: "64 word \<Rightarrow> Breakpoint" where
  "host_breakpoint a =
     \<lparr>address_type = kHost, guest_address = 0, host_address = a, backend_data = []\<rparr>"

definition no_translation :: "32 word \<Rightarrow> 64 word list" where
  "no_translation g = []"

definition exception_at :: "ExceptionCode \<Rightarrow> 64 word \<Rightarrow> Exception" where
  "exception_at c a = \<lparr>code = c, pc = a, thread_context = host_context (snapshot 0 0)\<rparr>"

definition accepting_handler :: "Exception \<Rightarrow> memory \<Rightarrow> bool \<times> memory" where
  "accepting_handler ex mem = (True, mem)"

definition initial_state :: "memory \<Rightarrow> host_state" where
  "initial_state mem = \<lparr>host_memory = mem, breakpoint_hits = []\<rparr>"

section \<open>Properties\<close>

subsection \<open>The flag masks\<close>

lemma and_exp_word: "(a :: 'a::len word) AND 2 ^ n = (if bit a n then 2 ^ n else 0)"
  by (rule bit_eqI) (auto simp: bit_simps)

lemma and_ZF_iff: "(efl AND X86_EFLAGS_ZF) = X86_EFLAGS_ZF \<longleftrightarrow> flag_ZF efl"
proof -
  have m: "X86_EFLAGS_ZF = 2 ^ 6" by (simp add: X86_EFLAGS_ZF_def)
  show ?thesis unfolding m and_exp_word flag_ZF_def by simp
qed

lemma and_SF_eq_and_OF:
  "(efl AND X86_EFLAGS_SF) = (efl AND X86_EFLAGS_OF) \<longleftrightarrow> \<not> flag_SF efl \<and> \<not> flag_OF efl"
proof -
  have m: "X86_EFLAGS_SF = 2 ^ 7" "X86_EFLAGS_OF = 2 ^ 11"
    by (simp_all add: X86_EFLAGS_SF_def X86_EFLAGS_OF_def)
  show ?thesis unfolding m and_exp_word flag_SF_def flag_OF_def by simp
qed

lemma and_SF_ne_OF: "(efl AND X86_EFLAGS_SF) \<noteq> X86_EFLAGS_OF"
proof -
  have m: "X86_EFLAGS_SF = 2 ^ 7" "X86_EFLAGS_OF = 2 ^ 11"
    by (simp_all add: X86_EFLAGS_SF_def X86_EFLAGS_OF_def)
  show ?thesis unfolding m and_exp_word by simp
qed

text \<open>
  The test of \<^verbatim>\<open>JLE\<close> compares the masked sign bit with the mask of the overflow
  flag, which it never equals: the test passes for every flags value.
\<close>

lemma JLE_test_always_passes: "TestCapstoneEflags chk efl X86_INS_JLE = Inr True"
  by (simp add: and_SF_ne_OF)

text \<open>
  The test of \<^verbatim>\<open>JL\<close> compares the two masked bits, which sit at different
  positions: they are equal only when both are clear.
\<close>

lemma JL_test_passes_iff:
  "TestCapstoneEflags chk efl X86_INS_JL = Inr (flag_SF efl \<or> flag_OF efl)"
  by (simp add: and_SF_eq_and_OF)

subsection \<open>The stepper on conditional jumps and returns\<close>

text \<open>
  C1. A \<^verbatim>\<open>JLE\<close> with an immediate operand should be taken exactly when ZF=1 or
  SF\<noteq>OF. With no flag set (ZF=0, SF=0, OF=0) that predicate is false, and the stepper
  still returns the immediate target \<^verbatim>\<open>0x2000\<close> of a two-byte \<^verbatim>\<open>JLE\<close> at
  \<^verbatim>\<open>0x1000\<close>, not the fall-through address \<^verbatim>\<open>0x1002\<close>.
\<close>

theorem JLE_taken_with_no_flag_set:
  "\<not> spec_JLE 0 \<and>
   CalculateNextHostInstruction True (reports (decoded X86_INS_JLE 2 [imm_operand 0x2000]))
     zero_memory (snapshot 0 0) 0x1000 = Inr 0x2000"
  by (simp add: spec_JLE_def flag_ZF_def flag_SF_def flag_OF_def
      CalculateNextHostInstruction_def reports_def decoded_def imm_operand_def snapshot_def
      assert_true_def X86_EFLAGS_ZF_def X86_EFLAGS_SF_def X86_EFLAGS_OF_def)

text \<open>
  C2. A \<^verbatim>\<open>JL\<close> with an immediate operand should be taken exactly when SF\<noteq>OF.
  With both SF and OF set (flags \<^verbatim>\<open>0x880\<close>) that predicate is false, and the stepper
  still returns the immediate target \<^verbatim>\<open>0x2000\<close> of a two-byte \<^verbatim>\<open>JL\<close> at
  \<^verbatim>\<open>0x1000\<close>, not the fall-through address \<^verbatim>\<open>0x1002\<close>.
\<close>

theorem JL_taken_with_SF_and_OF_set:
  "flag_SF 0x880 \<and> flag_OF 0x880 \<and> \<not> spec_JL 0x880 \<and>
   CalculateNextHostInstruction True (reports (decoded X86_INS_JL 2 [imm_operand 0x2000]))
     zero_memory (snapshot 0 0x880) 0x1000 = Inr 0x2000"
  by (simp add: spec_JL_def flag_SF_def flag_OF_def
      CalculateNextHostInstruction_def reports_def decoded_def imm_operand_def snapshot_def
      assert_true_def X86_EFLAGS_SF_def X86_EFLAGS_OF_def)

text \<open>
  C3. For a \<^verbatim>\<open>JE\<close> at \<open>current_pc\<close> with one immediate operand, the stepper
  returns the immediate when the ZF bit of the snapshot's flags is set, and
  \<open>current_pc\<close> plus the instruction's length when it is clear, in either build mode.
\<close>

theorem JE_resolution:
  assumes "cs_disasm_iter (machine_code mem current_pc 64) current_pc = insn"
    and "insn_id insn = X86_INS_JE"
    and "op_count insn = 1"
    and "op_type (operands insn 0) = X86_OP_IMM"
  shows "CalculateNextHostInstruction chk cs_disasm_iter mem thread_info current_pc =
           Inr (if flag_ZF (eflags (host_context thread_info)) then imm (operands insn 0)
                else current_pc + ucast (insn_size insn))"
  using assms
  by (simp add: CalculateNextHostInstruction_def assert_true_def and_ZF_iff)

text \<open>
  The instance of the specification: a \<^verbatim>\<open>JE\<close> at \<^verbatim>\<open>0x1000\<close> with target
  \<^verbatim>\<open>0x2000\<close> and length 2 yields \<^verbatim>\<open>0x2000\<close> with ZF set and \<^verbatim>\<open>0x1002\<close> with ZF
  clear.
\<close>

theorem JE_resolution_witness:
  "CalculateNextHostInstruction True (reports (decoded X86_INS_JE 2 [imm_operand 0x2000]))
     zero_memory (snapshot 0 0x40) 0x1000 = Inr 0x2000 \<and>
   CalculateNextHostInstruction True (reports (decoded X86_INS_JE 2 [imm_operand 0x2000]))
     zero_memory (snapshot 0 0) 0x1000 = Inr 0x1002"
  using JE_resolution [of "reports (decoded X86_INS_JE 2 [imm_operand 0x2000])" zero_memory
      "0x1000" "decoded X86_INS_JE 2 [imm_operand 0x2000]" True "snapshot 0 0x40"]
    JE_resolution [of "reports (decoded X86_INS_JE 2 [imm_operand 0x2000])" zero_memory
      "0x1000" "decoded X86_INS_JE 2 [imm_operand 0x2000]" True "snapshot 0 0"]
  by (simp add: reports_def decoded_def imm_operand_def snapshot_def flag_ZF_def)



subsection \<open>The stepper on every other instruction\<close>

text \<open>
  C5 as claimed says that an instruction whose id is not a control transfer the stepper
  names ends in a fatal unhandled-case assertion. It does not: such an instruction of
  three bytes at \<^verbatim>\<open>0x1000\<close> resolves to \<^verbatim>\<open>0x1003\<close>, with assertions compiled in.
\<close>

theorem unlisted_instruction_returns:
  "X86_INS_other 0 \<notin> set control_transfer_ids \<and>
   CalculateNextHostInstruction True (reports (decoded (X86_INS_other 0) 3 []))
     zero_memory (snapshot 0 0) 0x1000 = Inr 0x1003"
  by (simp add: CalculateNextHostInstruction_def reports_def decoded_def control_transfer_ids_def)

text \<open>
  C5, amended. For every decoded instruction whose id is not one of the control
  transfers the stepper names (CALL, RET, JMP, JCXZ, JECXZ, JRCXZ and the sixteen
  conditional jumps), the stepper raises no assertion and returns \<open>current_pc\<close> plus
  the instruction's length, in either build mode.
\<close>

theorem other_instruction_moves_over:
  assumes "cs_disasm_iter (machine_code mem current_pc 64) current_pc = insn"
    and "insn_id insn \<notin> set control_transfer_ids"
  shows "CalculateNextHostInstruction chk cs_disasm_iter mem thread_info current_pc =
           Inr (current_pc + ucast (insn_size insn))"
proof -
  from assms(2) obtain n where "insn_id insn = X86_INS_other n"
    by (cases "insn_id insn") (simp_all add: control_transfer_ids_def)
  with assms(1) show ?thesis
    by (simp add: CalculateNextHostInstruction_def)
qed

theorem other_instruction_moves_over_witness:
  "X86_INS_other 7 \<notin> set control_transfer_ids \<and>
   CalculateNextHostInstruction True (reports (decoded (X86_INS_other 7) 3 []))
     zero_memory (snapshot 0 0) 0x1000 = Inr 0x1003 \<and>
   CalculateNextHostInstruction False (reports (decoded (X86_INS_other 7) 3 []))
     zero_memory (snapshot 0 0) 0x1000 = Inr 0x1003"
  using other_instruction_moves_over [of "reports (decoded (X86_INS_other 7) 3 [])" zero_memory
      "0x1000" "decoded (X86_INS_other 7) 3 []" True "snapshot 0 0"]
    other_instruction_moves_over [of "reports (decoded (X86_INS_other 7) 3 [])" zero_memory
      "0x1000" "decoded (X86_INS_other 7) 3 []" False "snapshot 0 0"]
  by (simp add: reports_def decoded_def control_transfer_ids_def)

subsection \<open>Two bytes in memory\<close>

lemma load_and_swap_hi: "ucast (drop_bit 8 (load_and_swap_u16 mem p)) = mem p"
  unfolding load_and_swap_u16_def
  by (rule bit_word_eqI) (auto simp add: bit_simps dest: bit_imp_le_length)

lemma load_and_swap_lo: "ucast (load_and_swap_u16 mem p) = mem (p + 1)"
  unfolding load_and_swap_u16_def
  by (rule bit_word_eqI) (auto simp add: bit_simps dest: bit_imp_le_length)

lemma cat_split_u16:
  "push_bit 8 (ucast (ucast (drop_bit 8 v) :: 8 word)) OR ucast (ucast v :: 8 word) = (v :: 16 word)"
  by (rule bit_word_eqI) (auto simp add: bit_simps dest: bit_imp_le_length)

lemma load_after_store: "load_and_swap_u16 (store_and_swap_u16 mem p v) p = v"
  unfolding load_and_swap_u16_def store_and_swap_u16_def
  by (simp add: cat_split_u16)

lemma ucast_u16_u64_u16: "ucast (ucast (v :: 16 word) :: 64 word) = v"
  by (rule bit_word_eqI) (auto simp add: bit_simps)

lemma store_original_back:
  "store_and_swap_u16 (store_and_swap_u16 mem p w) p (load_and_swap_u16 mem p) = mem"
  unfolding store_and_swap_u16_def
  by (rule ext) (simp add: load_and_swap_hi load_and_swap_lo)

text \<open>The trap signature, read byte by byte.\<close>

lemma trap_signature_bytes:
  "load_and_swap_u16 mem p = 0x0F0B \<longleftrightarrow> mem p = 0x0F \<and> mem (p + 1) = 0x0B"
proof
  assume h: "load_and_swap_u16 mem p = 0x0F0B"
  have "mem p = ucast (drop_bit 8 (load_and_swap_u16 mem p))"
    by (simp add: load_and_swap_hi)
  also have "\<dots> = 0x0F" unfolding h by simp
  finally have first: "mem p = 0x0F" .
  have "mem (p + 1) = ucast (load_and_swap_u16 mem p)"
    by (simp add: load_and_swap_lo)
  also have "\<dots> = 0x0B" unfolding h by simp
  finally show "mem p = 0x0F \<and> mem (p + 1) = 0x0B" using first by simp
next
  assume "mem p = 0x0F \<and> mem (p + 1) = 0x0B"
  then show "load_and_swap_u16 mem p = 0x0F0B" by (simp add: load_and_swap_u16_def)
qed

subsection \<open>The breakpoint patcher\<close>

lemma install_at_ok:
  assumes "load_and_swap_u16 mem a \<noteq> 0x0F0B"
  shows "install_at chk a (mem, bp) =
    Inr (store_and_swap_u16 mem a 0x0F0B,
         bp\<lparr>backend_data := backend_data bp @ [(a, ucast (load_and_swap_u16 mem a))]\<rparr>)"
  using assms by (simp add: install_at_def assert_true_def Let_def)

lemma uninstall_pair_ok:
  assumes "load_and_swap_u16 mem a = 0x0F0B"
  shows "uninstall_pair chk (a, v) mem = Inr (store_and_swap_u16 mem a (ucast v))"
  using assms by (simp add: uninstall_pair_def assert_true_def Let_def)

text \<open>
  C6. Take a breakpoint with no record yet that resolves to the one host address \<open>a\<close>
  (a host-typed breakpoint at \<open>a\<close>, or a guest-typed one mapped to \<open>a\<close>), and a
  memory whose two bytes at \<open>a\<close> are not the trap signature \<^verbatim>\<open>0F 0B\<close>. Installing
  writes the trap signature at \<open>a\<close> and records the original bytes; installing and then
  uninstalling raises no assertion, gives back the original memory (so the two original
  bytes at \<open>a\<close>) and leaves the breakpoint with an empty record collection, in either
  build mode.
\<close>

theorem install_then_uninstall_restores:
  assumes "ForEachHostAddress guest_to_host bp = [a]"
    and "backend_data bp = []"
    and "\<not> (mem a = 0x0F \<and> mem (a + 1) = 0x0B)"
  shows "InstallBreakpoint chk guest_to_host (mem, bp) =
           Inr (mem(a := 0x0F, a + 1 := 0x0B),
                bp\<lparr>backend_data := [(a, ucast (load_and_swap_u16 mem a))]\<rparr>) \<and>
         install_then_uninstall chk guest_to_host (mem, bp) = Inr (mem, bp)"
proof -
  let ?orig = "load_and_swap_u16 mem a"
  let ?mem' = "store_and_swap_u16 mem a 0x0F0B"
  let ?bp' = "bp\<lparr>backend_data := [(a, ucast ?orig)]\<rparr>"
  from assms(3) have ne: "?orig \<noteq> 0x0F0B"
    by (simp add: trap_signature_bytes)
  have first: "ucast (drop_bit 8 (0x0F0B :: 16 word)) = (0x0F :: 8 word)" by simp
  have second: "ucast (0x0F0B :: 16 word) = (0x0B :: 8 word)" by simp
  have patched: "?mem' = mem(a := 0x0F, a + 1 := 0x0B)"
    unfolding store_and_swap_u16_def first second ..
  have inst: "InstallBreakpoint chk guest_to_host (mem, bp) = Inr (?mem', ?bp')"
    using assms(1,2) by (simp add: InstallBreakpoint_def install_at_ok [OF ne])
  have same_bp: "bp\<lparr>backend_data := []\<rparr> = bp"
    using assms(2) by (cases bp) simp
  have "UninstallBreakpoint chk (?mem', ?bp') = Inr (mem, bp)"
    by (simp add: UninstallBreakpoint_def uninstall_pair_ok [OF load_after_store]
        ucast_u16_u64_u16 store_original_back same_bp)
  with inst patched show ?thesis
    by (simp add: install_then_uninstall_def)
qed

theorem install_then_uninstall_restores_witness:
  "InstallBreakpoint True no_translation (code_memory, host_breakpoint 0x1000) =
     Inr (trap_memory, (host_breakpoint 0x1000)\<lparr>backend_data := [(0x1000, 0x4889)]\<rparr>) \<and>
   install_then_uninstall True no_translation (code_memory, host_breakpoint 0x1000) =
     Inr (code_memory, host_breakpoint 0x1000)"
proof -
  have a: "ForEachHostAddress no_translation (host_breakpoint 0x1000) = [0x1000]"
    by (simp add: ForEachHostAddress_def host_breakpoint_def)
  have b: "backend_data (host_breakpoint 0x1000) = []"
    by (simp add: host_breakpoint_def)
  have c: "\<not> (code_memory 0x1000 = 0x0F \<and> code_memory (0x1000 + 1) = 0x0B)"
    by (simp add: code_memory_def zero_memory_def)
  have d: "code_memory(0x1000 := 0x0F, 0x1000 + 1 := 0x0B) = trap_memory"
    by (rule ext) (simp add: code_memory_def trap_memory_def zero_memory_def)
  have e: "ucast (load_and_swap_u16 code_memory 0x1000) = (0x4889 :: 64 word)"
    by (simp add: load_and_swap_u16_def code_memory_def zero_memory_def)
  from install_then_uninstall_restores [OF a b c, of True] d e show ?thesis
    by simp
qed

text \<open>
  C7 as claimed says that uninstalling a breakpoint whose record collection is empty is
  rejected with a fatal assertion. It is not: with assertions compiled in, the call
  returns, and memory and breakpoint are as before.
\<close>

theorem second_uninstall_not_rejected:
  "backend_data (host_breakpoint 0x1000) = [] \<and>
   UninstallBreakpoint True (code_memory, host_breakpoint 0x1000) =
     Inr (code_memory, host_breakpoint 0x1000)"
  by (simp add: UninstallBreakpoint_def host_breakpoint_def)

text \<open>
  C7, amended. Uninstalling a breakpoint whose record collection is empty (as a second
  uninstall without an install in between finds it) is not rejected: it raises no
  assertion and returns, with the memory unchanged and the record collection still
  empty, in either build mode.
\<close>

theorem uninstall_without_records:
  assumes "backend_data bp = []"
  shows "UninstallBreakpoint chk (mem, bp) = Inr (mem, bp)"
proof -
  have "bp\<lparr>backend_data := []\<rparr> = bp"
    using assms by (cases bp) simp
  with assms show ?thesis
    by (simp add: UninstallBreakpoint_def)
qed

theorem uninstall_without_records_witness:
  "backend_data (host_breakpoint 0x1000) = [] \<and>
   UninstallBreakpoint True (trap_memory, host_breakpoint 0x1000) =
     Inr (trap_memory, host_breakpoint 0x1000)"
proof -
  have e: "backend_data (host_breakpoint 0x1000) = []"
    by (simp add: host_breakpoint_def)
  from uninstall_without_records [OF e, of True trap_memory] e show ?thesis
    by simp
qed

subsection \<open>The exception dispatcher\<close>

text \<open>
  C8. For every exception whose code is not illegal-instruction, the dispatcher
  returns not-handled, whatever the memory holds at the faulting program counter, and
  leaves the memory as it was (and makes no call to the breakpoint-hit handler).
\<close>

theorem dispatcher_declines_other_codes:
  assumes "code ex \<noteq> kIllegalInstruction"
  shows "ExceptionCallback handler ex s = (False, s)"
  using assms by (simp add: ExceptionCallback_def)

theorem dispatcher_declines_other_codes_witness:
  "code (exception_at kAccessViolation 0x1000) \<noteq> kIllegalInstruction \<and>
   ExceptionCallback accepting_handler (exception_at kAccessViolation 0x1000)
     (initial_state trap_memory) = (False, initial_state trap_memory)"
proof -
  have c: "code (exception_at kAccessViolation 0x1000) \<noteq> kIllegalInstruction"
    by (simp add: exception_at_def)
  from dispatcher_declines_other_codes [OF c, of accepting_handler "initial_state trap_memory"] c
  show ?thesis by simp
qed

text \<open>
  C9. For an illegal-instruction exception: when the two bytes at the faulting address
  are the trap signature \<^verbatim>\<open>0F 0B\<close>, the dispatcher calls the breakpoint-hit handler
  once, with that exception record, and returns the handler's result; when they are
  not, it returns not-handled without calling the handler and leaves the memory as it
  was.
\<close>

theorem dispatcher_delegates_on_trap:
  assumes "code ex = kIllegalInstruction"
  shows "(host_memory s (pc ex) = 0x0F \<and> host_memory s (pc ex + 1) = 0x0B \<longrightarrow>
            ExceptionCallback handler ex s =
              (fst (handler ex (host_memory s)),
               \<lparr>host_memory = snd (handler ex (host_memory s)),
                breakpoint_hits = breakpoint_hits s @ [ex]\<rparr>)) \<and>
         (\<not> (host_memory s (pc ex) = 0x0F \<and> host_memory s (pc ex + 1) = 0x0B) \<longrightarrow>
            ExceptionCallback handler ex s = (False, s))"
  using assms
  by (simp add: ExceptionCallback_def OnThreadBreakpointHit_def trap_signature_bytes Let_def)

theorem dispatcher_delegates_on_trap_witness:
  "ExceptionCallback accepting_handler (exception_at kIllegalInstruction 0x1000)
     (initial_state trap_memory) =
     (True, \<lparr>host_memory = trap_memory,
             breakpoint_hits = [exception_at kIllegalInstruction 0x1000]\<rparr>) \<and>
   ExceptionCallback accepting_handler (exception_at kIllegalInstruction 0x1000)
     (initial_state code_memory) = (False, initial_state code_memory)"
proof -
  have c: "code (exception_at kIllegalInstruction 0x1000) = kIllegalInstruction"
    by (simp add: exception_at_def)
  have p: "pc (exception_at kIllegalInstruction 0x1000) = 0x1000"
    by (simp add: exception_at_def)
  have t: "trap_memory 0x1000 = 0x0F \<and> trap_memory (0x1000 + 1) = 0x0B"
    by (simp add: trap_memory_def zero_memory_def)
  have n: "\<not> (code_memory 0x1000 = 0x0F \<and> code_memory (0x1000 + 1) = 0x0B)"
    by (simp add: code_memory_def zero_memory_def)
  from dispatcher_delegates_on_trap [OF c, of "initial_state trap_memory" accepting_handler] t
  have one: "ExceptionCallback accepting_handler (exception_at kIllegalInstruction 0x1000)
     (initial_state trap_memory) =
     (True, \<lparr>host_memory = trap_memory,
             breakpoint_hits = [exception_at kIllegalInstruction 0x1000]\<rparr>)"
    by (simp add: p initial_state_def accepting_handler_def)
  from dispatcher_delegates_on_trap [OF c, of "initial_state code_memory" accepting_handler] n
  have two: "ExceptionCallback accepting_handler (exception_at kIllegalInstruction 0x1000)
     (initial_state code_memory) = (False, initial_state code_memory)"
    by (simp add: p initial_state_def)
  from one two show ?thesis by simp
qed

subsection \<open>Registers the helper does not name\<close>

text \<open>
  C10 as claimed says that, for a register id outside the sixteen 64-bit
  general-purpose registers, the register-read helper returns 0 and a CALL or a JMP
  through such a register operand resolves to next-pc 0, whatever the build. With
  assertions compiled in it does not: the helper ends in its unhandled-case assertion,
  and so does the stepper on a CALL and on a JMP through such a register.
\<close>

theorem unrecognized_register_fatal_with_assertions:
  "X86_REG_other 0 \<notin> set gpr64_regs \<and>
   ReadCapstoneReg True (host_context (snapshot 0x7000 0)) (X86_REG_other 0) =
     Inl assert_unhandled_case_failed \<and>
   ReadCapstoneReg True (host_context (snapshot 0x7000 0)) (X86_REG_other 0) \<noteq> Inr 0 \<and>
   CalculateNextHostInstruction True
     (reports (decoded X86_INS_CALL 2 [reg_operand (X86_REG_other 0)]))
     zero_memory (snapshot 0x7000 0) 0x1000 = Inl assert_unhandled_case_failed \<and>
   CalculateNextHostInstruction True
     (reports (decoded X86_INS_JMP 2 [reg_operand (X86_REG_other 0)]))
     zero_memory (snapshot 0x7000 0) 0x1000 = Inl assert_unhandled_case_failed"
  by (simp add: gpr64_regs_def CalculateNextHostInstruction_def reports_def decoded_def
      reg_operand_def assert_true_def assert_unhandled_case_def)

text \<open>
  C10, amended. For every register id outside the sixteen 64-bit general-purpose
  registers, the register-read helper reaches its unhandled-case assertion. With
  assertions compiled out it then returns 0, and a CALL or a JMP through such a
  register operand resolves to next-pc 0. With assertions compiled in, that assertion
  is fatal: the helper returns nothing, and neither does the stepper on such a CALL or
  JMP.
\<close>

theorem unrecognized_register_reads_zero:
  assumes "r \<notin> set gpr64_regs"
    and "cs_disasm_iter (machine_code mem current_pc 64) current_pc = insn"
    and "insn_id insn = X86_INS_CALL \<or> insn_id insn = X86_INS_JMP"
    and "op_count insn = 1"
    and "op_type (operands insn 0) = X86_OP_REG"
    and "reg (operands insn 0) = r"
  shows "ReadCapstoneReg False context r = Inr 0 \<and>
         ReadCapstoneReg True context r = Inl assert_unhandled_case_failed \<and>
         CalculateNextHostInstruction False cs_disasm_iter mem thread_info current_pc = Inr 0 \<and>
         CalculateNextHostInstruction True cs_disasm_iter mem thread_info current_pc =
           Inl assert_unhandled_case_failed"
proof -
  from assms(1) obtain n where r: "r = X86_REG_other n"
    by (cases r) (simp_all add: gpr64_regs_def)
  from assms(3) show ?thesis
  proof
    assume "insn_id insn = X86_INS_CALL"
    with assms(2,4,5,6) r show ?thesis
      by (simp add: CalculateNextHostInstruction_def assert_true_def assert_unhandled_case_def)
  next
    assume "insn_id insn = X86_INS_JMP"
    with assms(2,4,5,6) r show ?thesis
      by (simp add: CalculateNextHostInstruction_def assert_true_def assert_unhandled_case_def)
  qed
qed

theorem unrecognized_register_reads_zero_witness:
  "X86_REG_other 0 \<notin> set gpr64_regs \<and>
   ReadCapstoneReg False (host_context (snapshot 0x7000 0)) (X86_REG_other 0) = Inr 0 \<and>
   ReadCapstoneReg True (host_context (snapshot 0x7000 0)) (X86_REG_other 0) =
     Inl assert_unhandled_case_failed \<and>
   CalculateNextHostInstruction False
     (reports (decoded X86_INS_CALL 2 [reg_operand (X86_REG_other 0)]))
     zero_memory (snapshot 0x7000 0) 0x1000 = Inr 0 \<and>
   CalculateNextHostInstruction True
     (reports (decoded X86_INS_CALL 2 [reg_operand (X86_REG_other 0)]))
     zero_memory (snapshot 0x7000 0) 0x1000 = Inl assert_unhandled_case_failed \<and>
   CalculateNextHostInstruction False
     (reports (decoded X86_INS_JMP 2 [reg_operand (X86_REG_other 0)]))
     zero_memory (snapshot 0x7000 0) 0x1000 = Inr 0 \<and>
   CalculateNextHostInstruction True
     (reports (decoded X86_INS_JMP 2 [reg_operand (X86_REG_other 0)]))
     zero_memory (snapshot 0x7000 0) 0x1000 = Inl assert_unhandled_case_failed"
proof -
  have g: "X86_REG_other 0 \<notin> set gpr64_regs"
    by (simp add: gpr64_regs_def)
  from
    unrecognized_register_reads_zero [OF g, of
      "reports (decoded X86_INS_CALL 2 [reg_operand (X86_REG_other 0)])" zero_memory "0x1000"
      "decoded X86_INS_CALL 2 [reg_operand (X86_REG_other 0)]"
      "host_context (snapshot 0x7000 0)" "snapshot 0x7000 0"]
    unrecognized_register_reads_zero [OF g, of
      "reports (decoded X86_INS_JMP 2 [reg_operand (X86_REG_other 0)])" zero_memory "0x1000"
      "decoded X86_INS_JMP 2 [reg_operand (X86_REG_other 0)]"
      "host_context (snapshot 0x7000 0)" "snapshot 0x7000 0"]
    g
  show ?thesis
    by (simp add: reports_def decoded_def reg_operand_def)
qed

end
